theory Spec2Isabelle
  imports Main "HOL-Library.AList"
begin

section \<open>Strings and the domain classifier\<close>

text \<open>
  JavaScript strings are modelled as \<^typ>\<open>string\<close>. The three string operations the
  background worker uses are \<open>startsWith\<close>, \<open>includes\<close> and \<open>replace\<close> with a
  string pattern, which replaces the first occurrence of the pattern only, wherever it is.
\<close>

definition startsWith :: "string \<Rightarrow> string \<Rightarrow> bool" where
  "startsWith pat s = (take (length pat) s = pat)"

fun str_includes :: "string \<Rightarrow> string \<Rightarrow> bool" where
  "str_includes pat [] = (pat = [])"
| "str_includes pat (c # cs) = (startsWith pat (c # cs) \<or> str_includes pat cs)"

fun replace :: "string \<Rightarrow> string \<Rightarrow> string \<Rightarrow> string" where
  "replace pat rep [] = (if pat = [] then rep else [])"
| "replace pat rep (c # cs) =
     (if startsWith pat (c # cs) then rep @ drop (length pat) (c # cs)
      else c # replace pat rep cs)"

text \<open>
  \<open>new URL(url).hostname\<close> is the platform's URL parser, not code of this repository.
  It is a parameter of the model: \<open>hostname_of url = None\<close> says that the constructor
  throws on \<open>url\<close>, \<open>Some h\<close> that it parses with hostname \<open>h\<close>.
\<close>

type_synonym url_parser = "string \<Rightarrow> string option"

definition extractDomain :: "url_parser \<Rightarrow> string \<Rightarrow> string" where
  "extractDomain hostname_of url =
     (if startsWith ''chrome://'' url then ''chrome://''
      else if startsWith ''chrome-extension://'' url then ''chrome-extension://''
      else if startsWith ''about:'' url then ''about:''
      else if startsWith ''file://'' url then ''file://''
      else (case hostname_of url of
              None \<Rightarrow> ''unknown''
            | Some h \<Rightarrow> replace ''www.'' '''' h))"

definition excludedDomains :: "string list" where
  "excludedDomains = [''chrome://'', ''chrome-extension://'', ''about:'', ''file://'']"

definition isDomainExcluded :: "string \<Rightarrow> bool" where
  "isDomainExcluded domain =
     list_ex (\<lambda>excluded. str_includes excluded domain \<or> domain = '''') excludedDomains"

section \<open>The tab-focus tracker\<close>

text \<open>
  The tracker object. Both \<open>Map\<close>s are association lists in insertion order with one pair
  per key: \<open>Map.set\<close> is \<^const>\<open>AList.update\<close>, \<open>Map.delete\<close> is \<^const>\<open>AList.delete\<close>,
  \<open>Map.get\<close> is \<^const>\<open>map_of\<close>. Times are milliseconds as \<^typ>\<open>int\<close>; each handler takes
  the reading of \<open>Date.now()\<close> as its argument \<open>now\<close>.

  \<open>saveVisitData\<close> is asynchronous and is not awaited by its callers: a call only puts a
  commit in flight. The field \<open>commits\<close> lists the calls made so far, oldest first, each
  with its arguments \<open>(domain, duration, url)\<close>. \<open>badge\<close> is the badge text last set.
\<close>

record trackingData =
  tabId :: int
  url :: string
  domain :: string
  startTime :: int
  lastUpdate :: int

record heartbeat =
  lastTimestamp :: int
  page_url :: string

type_synonym commit = "string \<times> int \<times> string"

record tracker =
  activeTabs :: "(int \<times> trackingData) list"
  sessionData :: "(int \<times> heartbeat) list"
  isTrackingEnabled :: bool
  commits :: "commit list"
  badge :: string

definition new_tracker :: tracker where
  "new_tracker = \<lparr>activeTabs = [], sessionData = [], isTrackingEnabled = True,
                   commits = [], badge = ''''\<rparr>"

definition toUpperCase :: "string \<Rightarrow> string" where
  "toUpperCase s =
     map (\<lambda>c. let n = (of_char c :: nat)
               in if 97 \<le> n \<and> n \<le> 122 then char_of (n - 32) else c) s"

definition updateBadge :: "string \<Rightarrow> tracker \<Rightarrow> tracker" where
  "updateBadge dmn s =
     (if dmn = '''' then s\<lparr>badge := ''''\<rparr>
      else s\<lparr>badge := toUpperCase (take 4 dmn)\<rparr>)"

definition saveVisitData_call :: "string \<Rightarrow> int \<Rightarrow> string \<Rightarrow> tracker \<Rightarrow> tracker" where
  "saveVisitData_call dmn duration u s = s\<lparr>commits := commits s @ [(dmn, duration, u)]\<rparr>"

text \<open>
  A url that may be \<open>undefined\<close> is a \<^typ>\<open>string option\<close>; \<open>undefined\<close> and the empty
  string are the falsy ones.
\<close>

definition startTrackingTab ::
  "url_parser \<Rightarrow> int \<Rightarrow> int \<Rightarrow> string option \<Rightarrow> tracker \<Rightarrow> tracker" where
  "startTrackingTab hostname_of now tid uo s =
     (case uo of
        None \<Rightarrow> s
      | Some u \<Rightarrow>
          if \<not> isTrackingEnabled s \<or> u = '''' then s
          else let dmn = extractDomain hostname_of u in
            if isDomainExcluded dmn then s
            else updateBadge dmn
                   (s\<lparr>activeTabs := AList.update tid
                        \<lparr>tabId = tid, url = u, domain = dmn, startTime = now, lastUpdate = now\<rparr>
                        (activeTabs s)\<rparr>))"

definition stopTrackingTab :: "int \<Rightarrow> int \<Rightarrow> tracker \<Rightarrow> tracker" where
  "stopTrackingTab now tid s =
     (case map_of (activeTabs s) tid of
        None \<Rightarrow> s
      | Some td \<Rightarrow>
          let duration = now - startTime td;
              s1 = (if duration > 1000 then saveVisitData_call (domain td) duration (url td) s
                    else s)
          in updateBadge '''' (s1\<lparr>activeTabs := AList.delete tid (activeTabs s1)\<rparr>))"

text \<open>
  \<open>stopTrackingAllTabs\<close> iterates over the live key iterator of the map while
  \<open>stopTrackingTab\<close> deletes the key being visited; no other key is touched, so the
  iteration visits exactly the keys present when the loop starts, in insertion order.
\<close>

definition stopTrackingAllTabs :: "int \<Rightarrow> tracker \<Rightarrow> tracker" where
  "stopTrackingAllTabs now s = foldl (\<lambda>st tid. stopTrackingTab now tid st) s (map fst (activeTabs s))"


subsection \<open>Event handlers\<close>

text \<open>
  \<open>handleTabActivated\<close> and \<open>handleWindowFocusChanged\<close> each have a synchronous part and
  a callback that the browser runs later with the tab it looked up; other handlers can run
  in between, so the two parts are separate steps. \<open>tab_url\<close> is \<open>None\<close> when \<open>tab\<close> or
  \<open>tab.url\<close> is undefined. The continuation of \<open>initializeExistingTabs\<close> does with the
  active tab what the callback of \<open>handleTabActivated\<close> does with the tab it gets.
\<close>

definition handleTabActivated :: "int \<Rightarrow> tracker \<Rightarrow> tracker" where
  "handleTabActivated now s = stopTrackingAllTabs now s"

definition handleTabActivated_callback ::
  "url_parser \<Rightarrow> int \<Rightarrow> int \<Rightarrow> string option \<Rightarrow> tracker \<Rightarrow> tracker" where
  "handleTabActivated_callback hostname_of now tid tab_url s =
     (case tab_url of
        None \<Rightarrow> s
      | Some u \<Rightarrow> if u = '''' then s else startTrackingTab hostname_of now tid (Some u) s)"

definition handleTabUpdated ::
  "url_parser \<Rightarrow> int \<Rightarrow> int \<Rightarrow> bool \<Rightarrow> string option \<Rightarrow> tracker \<Rightarrow> tracker" where
  "handleTabUpdated hostname_of now tid status_complete tab_url s =
     (case tab_url of
        None \<Rightarrow> s
      | Some u \<Rightarrow>
          if status_complete \<and> u \<noteq> ''''
          then startTrackingTab hostname_of now tid (Some u) (stopTrackingTab now tid s)
          else s)"

definition handleTabRemoved :: "int \<Rightarrow> int \<Rightarrow> tracker \<Rightarrow> tracker" where
  "handleTabRemoved now tid s = stopTrackingTab now tid s"

text \<open>
  \<open>window_none\<close> says that \<open>windowId === WINDOW_ID_NONE\<close>. Otherwise the handler only
  issues the query; its callback gets \<open>tabs[0]\<close>, if any, as the pair of its id and url.
\<close>

definition handleWindowFocusChanged :: "int \<Rightarrow> bool \<Rightarrow> tracker \<Rightarrow> tracker" where
  "handleWindowFocusChanged now window_none s =
     (if window_none then stopTrackingAllTabs now s else s)"

definition handleWindowFocusChanged_callback ::
  "url_parser \<Rightarrow> int \<Rightarrow> (int \<times> string option) option \<Rightarrow> tracker \<Rightarrow> tracker" where
  "handleWindowFocusChanged_callback hostname_of now tab0 s =
     (case tab0 of
        None \<Rightarrow> s
      | Some (tid, uo) \<Rightarrow> startTrackingTab hostname_of now tid uo (stopTrackingAllTabs now s))"

definition toggleTracking :: "int \<Rightarrow> bool \<Rightarrow> tracker \<Rightarrow> tracker" where
  "toggleTracking now enabled s =
     (let s1 = s\<lparr>isTrackingEnabled := enabled\<rparr>
      in if \<not> isTrackingEnabled s1 then stopTrackingAllTabs now s1 else s1)"

text \<open>
  \<open>loadStoredData\<close> and the \<open>saveSettings\<close> message assign the stored setting to
  \<open>isTrackingEnabled\<close> and stop nothing.
\<close>

definition setTrackingEnabled :: "bool \<Rightarrow> tracker \<Rightarrow> tracker" where
  "setTrackingEnabled enabled s = s\<lparr>isTrackingEnabled := enabled\<rparr>"

subsection \<open>The heartbeat channel\<close>

text \<open>
  The \<open>pageEvent\<close> branch of the message listener. \<open>sender_tab\<close> is \<open>sender.tab.id\<close>, or
  \<open>None\<close> when the sender has no tab; \<open>!tabId\<close> also holds for the id 0. The result pairs
  the \<open>ok\<close> field of the response with the new tracker. Nothing in the \<open>try\<close> block
  throws on strings and numbers (\<open>extractDomain\<close> catches its own exceptions), so the
  \<open>catch\<close> branch, which answers \<open>ok: false\<close>, has no counterpart here.
\<close>

definition pageEvent ::
  "url_parser \<Rightarrow> int option \<Rightarrow> string \<Rightarrow> int \<Rightarrow> tracker \<Rightarrow> bool \<times> tracker" where
  "pageEvent hostname_of sender_tab u ts s =
     (let dmn = extractDomain hostname_of u in
      case sender_tab of
        None \<Rightarrow> (False, s)
      | Some tid \<Rightarrow>
          if tid = 0 \<or> isDomainExcluded dmn then (False, s)
          else
            (case map_of (sessionData s) tid of
               None \<Rightarrow>
                 (True, s\<lparr>sessionData :=
                    AList.update tid \<lparr>lastTimestamp = ts, page_url = u\<rparr> (sessionData s)\<rparr>)
             | Some prev \<Rightarrow>
                 if page_url prev \<noteq> u
                 then (True, s\<lparr>sessionData :=
                    AList.update tid \<lparr>lastTimestamp = ts, page_url = u\<rparr> (sessionData s)\<rparr>)
                 else
                   let delta = max 0 (min (ts - lastTimestamp prev) 60000);
                       s1 = (if delta \<ge> 5000 then saveVisitData_call dmn delta u s else s)
                   in (True, s1\<lparr>sessionData :=
                        AList.update tid \<lparr>lastTimestamp = ts, page_url = u\<rparr> (sessionData s1)\<rparr>)))"

subsection \<open>Runs of the tracker\<close>

datatype event =
    TabActivated int
  | TabLookedUp int "string option"
  | TabUpdated int bool "string option"
  | TabRemoved int
  | WindowFocusChanged bool
  | ActiveTabQueried "(int \<times> string option) option"
  | ToggleTracking bool
  | SettingsLoaded bool
  | PageEvent "int option" string int

fun dispatch :: "url_parser \<Rightarrow> int \<Rightarrow> event \<Rightarrow> tracker \<Rightarrow> tracker" where
  "dispatch P now (TabActivated tid) s = handleTabActivated now s"
| "dispatch P now (TabLookedUp tid uo) s = handleTabActivated_callback P now tid uo s"
| "dispatch P now (TabUpdated tid c uo) s = handleTabUpdated P now tid c uo s"
| "dispatch P now (TabRemoved tid) s = handleTabRemoved now tid s"
| "dispatch P now (WindowFocusChanged none) s = handleWindowFocusChanged now none s"
| "dispatch P now (ActiveTabQueried tab0) s = handleWindowFocusChanged_callback P now tab0 s"
| "dispatch P now (ToggleTracking enabled) s = toggleTracking now enabled s"
| "dispatch P now (SettingsLoaded enabled) s = setTrackingEnabled enabled s"
| "dispatch P now (PageEvent sender_tab u ts) s = snd (pageEvent P sender_tab u ts s)"

text \<open>A run handles a list of events, each with the time at which its handler runs.\<close>

fun run :: "url_parser \<Rightarrow> (int \<times> event) list \<Rightarrow> tracker \<Rightarrow> tracker" where
  "run P [] s = s"
| "run P ((now, e) # es) s = run P es (dispatch P now e s)"

text \<open>
  Every heartbeat cursor that the handler stores has passed its gate: a nonzero tab id
  and a url whose domain is not excluded.
\<close>

definition sessions_ok :: "url_parser \<Rightarrow> tracker \<Rightarrow> bool" where
  "sessions_ok P s =
     list_all (\<lambda>(tid, h). tid \<noteq> 0 \<and> \<not> isDomainExcluded (extractDomain P (page_url h)))
       (sessionData s)"

section \<open>The focus timer\<close>

text \<open>
  The timer state is a JavaScript object read from and written to the storage key
  \<open>pomodoro\<close>. A field that the object does not have is \<open>None\<close>; the empty object \<open>{}\<close>
  has none. Numbers are integers (milliseconds and counts).
\<close>

datatype timer_mode = Work | Break

record pomodoro =
  mode :: "timer_mode option"
  isRunning :: "bool option"
  remainingMs :: "int option"
  workMs :: "int option"
  breakMs :: "int option"
  longBreakMs :: "int option"
  sessionsBeforeLong :: "int option"
  sessionsCompleted :: "int option"
  lastUpdated :: "int option"

definition empty_object :: pomodoro where
  "empty_object = \<lparr>mode = None, isRunning = None, remainingMs = None, workMs = None,
     breakMs = None, longBreakMs = None, sessionsBeforeLong = None,
     sessionsCompleted = None, lastUpdated = None\<rparr>"

text \<open>\<open>x || d\<close> on a number that may be missing: \<open>undefined\<close> and 0 are falsy.\<close>

definition or_else :: "int option \<Rightarrow> int \<Rightarrow> int" where
  "or_else x d = (case x of None \<Rightarrow> d | Some v \<Rightarrow> if v = 0 then d else v)"

text \<open>\<open>res.pomodoro || {}\<close>; spreading \<open>undefined\<close> adds no field either.\<close>

definition or_empty :: "pomodoro option \<Rightarrow> pomodoro" where
  "or_empty stored_state = (case stored_state of None \<Rightarrow> empty_object | Some p \<Rightarrow> p)"

definition override :: "'a option \<Rightarrow> 'a option \<Rightarrow> 'a option" where
  "override old new = (case new of None \<Rightarrow> old | Some v \<Rightarrow> Some v)"

text \<open>The object spread \<open>{...a, ...b}\<close>: every field of \<open>b\<close> wins over that of \<open>a\<close>.\<close>

definition spread :: "pomodoro \<Rightarrow> pomodoro \<Rightarrow> pomodoro" where
  "spread a b =
     \<lparr>mode = override (mode a) (mode b),
      isRunning = override (isRunning a) (isRunning b),
      remainingMs = override (remainingMs a) (remainingMs b),
      workMs = override (workMs a) (workMs b),
      breakMs = override (breakMs a) (breakMs b),
      longBreakMs = override (longBreakMs a) (longBreakMs b),
      sessionsBeforeLong = override (sessionsBeforeLong a) (sessionsBeforeLong b),
      sessionsCompleted = override (sessionsCompleted a) (sessionsCompleted b),
      lastUpdated = override (lastUpdated a) (lastUpdated b)\<rparr>"

text \<open>
  The remainder \<open>a % b\<close> of JavaScript on integers takes the sign of \<open>a\<close>. It is only
  used with a divisor that \<open>||\<close> has made nonzero.
\<close>

definition js_rem :: "int \<Rightarrow> int \<Rightarrow> int" where
  "js_rem a b = sgn a * (\<bar>a\<bar> mod \<bar>b\<bar>)"

text \<open>
  What the timer handlers read and write: the stored object, if any, and the time of the
  pending \<open>pomodoro-end\<close> alarm, if one is armed. Each handler is modelled as running
  to completion, without another handler's storage operation in between.
\<close>

record timer_env =
  stored :: "pomodoro option"
  alarm :: "int option"

text \<open>
  The alarm listener. It reads the clock twice: \<open>now\<close> for \<open>lastUpdated\<close>, and
  \<open>now'\<close>, after the state has been written, for the new alarm.
\<close>

definition onAlarm :: "string \<Rightarrow> int \<Rightarrow> int \<Rightarrow> timer_env \<Rightarrow> timer_env" where
  "onAlarm name now now' env =
     (if name \<noteq> ''pomodoro-end'' then env
      else
        let state = or_empty (stored env);
            next1 =
              (if mode state = Some Work then
                 let completed = or_else (sessionsCompleted state) 0 + 1;
                     useLong = (js_rem completed (or_else (sessionsBeforeLong state) 4) = 0);
                     r = (if useLong then or_else (longBreakMs state) 900000
                          else or_else (breakMs state) 300000)
                 in (r, state\<lparr>sessionsCompleted := Some completed, mode := Some Break,
                              remainingMs := Some r\<rparr>)
               else
                 let r = or_else (workMs state) 1500000
                 in (r, state\<lparr>mode := Some Work, remainingMs := Some r\<rparr>));
            next2 = (snd next1)\<lparr>isRunning := Some True, lastUpdated := Some now\<rparr>
        in \<lparr>stored = Some next2, alarm = Some (now' + fst next1)\<rparr>)"

definition getPomodoroRemaining :: "int \<Rightarrow> pomodoro \<Rightarrow> int option" where
  "getPomodoroRemaining now state =
     (if isRunning state \<noteq> Some True then remainingMs state
      else
        let delta = max 0 (now - or_else (lastUpdated state) now)
        in Some (max 0 (or_else (remainingMs state) 0 - delta)))"

definition pomodoro_pause :: "int \<Rightarrow> timer_env \<Rightarrow> timer_env" where
  "pomodoro_pause now env =
     (let s = or_empty (stored env);
          remaining = getPomodoroRemaining now s;
          next = s\<lparr>isRunning := Some False, remainingMs := remaining, lastUpdated := Some now\<rparr>
      in \<lparr>stored = Some next, alarm = None\<rparr>)"

definition reset_defaults :: "int \<Rightarrow> pomodoro" where
  "reset_defaults now =
     \<lparr>mode = Some Work, isRunning = Some False, remainingMs = Some (25 * 60 * 1000),
      workMs = None, breakMs = None, longBreakMs = None, sessionsBeforeLong = None,
      sessionsCompleted = Some 0, lastUpdated = Some now\<rparr>"

definition pomodoro_reset :: "int \<Rightarrow> timer_env \<Rightarrow> timer_env" where
  "pomodoro_reset now env =
     (let s = spread (or_empty (stored env)) (reset_defaults now)
      in \<lparr>stored = Some s, alarm = None\<rparr>)"

text \<open>
  \<open>request.settings\<close> is spread into the stored object as it is, so a patch is an object
  of the same kind. A settings patch has the four configuration fields only.
\<close>

definition pomodoro_updateSettings :: "pomodoro \<Rightarrow> timer_env \<Rightarrow> timer_env" where
  "pomodoro_updateSettings settings env =
     (let s = or_empty (stored env);
          next = spread s settings
      in env\<lparr>stored := Some next\<rparr>)"

definition settings_patch :: "pomodoro \<Rightarrow> bool" where
  "settings_patch p =
     (mode p = None \<and> isRunning p = None \<and> remainingMs p = None \<and>
      sessionsCompleted p = None \<and> lastUpdated p = None)"

section \<open>The visit aggregator\<close>

text \<open>
  The persisted records: under the key of a day, an object from domains to daily records;
  under the key \<open>statistics\<close>, the all-time record. Objects used as dictionaries are maps
  of their own properties.

  The code reads them with \<open>obj[key]\<close>, which also finds what every plain object inherits
  from \<open>Object.prototype\<close>: for such a key, and no own property of that name, the value
  read is a function (for \<open>__proto__\<close> the prototype itself), which is truthy.
\<close>

definition object_prototype_keys :: "string list" where
  "object_prototype_keys =
     [''constructor'', ''__proto__'', ''toString'', ''toLocaleString'', ''valueOf'',
      ''hasOwnProperty'', ''isPrototypeOf'', ''propertyIsEnumerable'',
      ''__defineGetter__'', ''__defineSetter__'', ''__lookupGetter__'', ''__lookupSetter__'']"

datatype 'a property = Own 'a | Inherited | Absent

definition get_property :: "(string \<rightharpoonup> 'a) \<Rightarrow> string \<Rightarrow> 'a property" where
  "get_property obj k =
     (case obj k of
        Some v \<Rightarrow> Own v
      | None \<Rightarrow> if k \<in> set object_prototype_keys then Inherited else Absent)"

text \<open>
  The time stored for a url is a number, or a string once \<open>+=\<close> has been applied to an
  inherited function (function plus number is string concatenation).
\<close>

datatype url_time = Millis int | Text

record dailyRecord =
  totalTime :: int
  visitCount :: int
  urls :: "string \<rightharpoonup> url_time"

record domainTotals =
  domain_totalTime :: int
  domain_visitCount :: int

record statistics =
  stats_totalTime :: int
  totalVisits :: int
  domains :: "string \<rightharpoonup> domainTotals"
  stats_lastUpdated :: int

record storage =
  visits :: "string \<rightharpoonup> (string \<rightharpoonup> dailyRecord)"
  stats :: "statistics option"

text \<open>
  \<open>if (!urls[url]) urls[url] = 0; urls[url] += duration\<close>. A missing or zero entry
  becomes \<open>duration\<close>. For an inherited name the test fails and \<open>+=\<close> stores a string as
  an own property, except under \<open>__proto__\<close>, whose setter ignores a string.
\<close>

definition add_url :: "(string \<rightharpoonup> url_time) \<Rightarrow> string \<Rightarrow> int \<Rightarrow> (string \<rightharpoonup> url_time)" where
  "add_url us u duration =
     (case get_property us u of
        Absent \<Rightarrow> us(u \<mapsto> Millis duration)
      | Own (Millis t) \<Rightarrow> us(u \<mapsto> Millis (t + duration))
      | Own Text \<Rightarrow> us(u \<mapsto> Text)
      | Inherited \<Rightarrow> if u = ''__proto__'' then us else us(u \<mapsto> Text))"

definition add_to_record :: "dailyRecord \<Rightarrow> int \<Rightarrow> string \<Rightarrow> dailyRecord" where
  "add_to_record r duration u =
     \<lparr>totalTime = totalTime r + duration, visitCount = visitCount r + 1,
      urls = add_url (urls r) u duration\<rparr>"

text \<open>
  The synchronous code of \<open>saveVisitData\<close> between its \<open>get\<close> and its \<open>set\<close>, on the value
  that \<open>get\<close> has returned for the day's key. When \<open>visits[domain]\<close> is inherited, the
  record is not initialised, the two \<open>+=\<close> land on the inherited object, and
  \<open>visits[domain].urls[url]\<close> throws a TypeError, since \<open>urls\<close> is undefined there: the
  result \<open>None\<close>. What \<open>+=\<close> leaves on the inherited object is not a number and is never
  read as one.
\<close>

definition add_visit ::
  "(string \<rightharpoonup> dailyRecord) option \<Rightarrow> string \<Rightarrow> int \<Rightarrow> string \<Rightarrow>
     (string \<rightharpoonup> dailyRecord) option" where
  "add_visit got dmn duration u =
     (let vs = (case got of None \<Rightarrow> Map.empty | Some m \<Rightarrow> m)
      in case get_property vs dmn of
           Inherited \<Rightarrow> None
         | Absent \<Rightarrow>
             Some (vs(dmn \<mapsto>
               add_to_record \<lparr>totalTime = 0, visitCount = 0, urls = Map.empty\<rparr> duration u))
         | Own r \<Rightarrow> Some (vs(dmn \<mapsto> add_to_record r duration u)))"

text \<open>
  The synchronous code of \<open>updateStatistics\<close>. For an inherited \<open>stats.domains[domain]\<close>
  nothing throws; the per-domain increments land on the inherited object and the stored
  \<open>domains\<close> stay as they are.
\<close>

definition add_statistics :: "statistics option \<Rightarrow> int \<Rightarrow> string \<Rightarrow> int \<Rightarrow> statistics" where
  "add_statistics got now dmn duration =
     (let st = (case got of
                  None \<Rightarrow> \<lparr>stats_totalTime = 0, totalVisits = 0, domains = Map.empty,
                           stats_lastUpdated = now\<rparr>
                | Some x \<Rightarrow> x);
          bump = (\<lambda>d. \<lparr>domain_totalTime = domain_totalTime d + duration,
                       domain_visitCount = domain_visitCount d + 1\<rparr>)
      in \<lparr>stats_totalTime = stats_totalTime st + duration,
          totalVisits = totalVisits st + 1,
          domains =
            (case get_property (domains st) dmn of
               Inherited \<Rightarrow> domains st
             | Absent \<Rightarrow> (domains st)(dmn \<mapsto>
                 bump \<lparr>domain_totalTime = 0, domain_visitCount = 0\<rparr>)
             | Own d \<Rightarrow> (domains st)(dmn \<mapsto> bump d)),
          stats_lastUpdated = now\<rparr>)"

text \<open>
  A call of \<open>saveVisitData\<close> is a task that performs four storage operations in turn, each
  awaited: \<open>get\<close> of the day's key, \<open>set\<close> of that key, then in \<open>updateStatistics\<close> \<open>get\<close>
  and \<open>set\<close> of \<open>statistics\<close>. The phase of a task names the operation it is waiting
  for; a \<open>set\<close> carries the value computed from what the \<open>get\<close> returned. An exception,
  thrown by the code or by a rejected operation, is caught and logged, and the task ends
  there.
\<close>

datatype phase =
    GetVisits
  | SetVisits "string \<rightharpoonup> dailyRecord"
  | GetStatistics
  | SetStatistics statistics
  | Finished
  | Failed

record task =
  day :: string
  task_domain :: string
  task_duration :: int
  task_url :: string
  waiting :: phase

definition saveVisitData :: "string \<Rightarrow> commit \<Rightarrow> task" where
  "saveVisitData today c =
     (case c of (dmn, duration, u) \<Rightarrow>
        \<lparr>day = today, task_domain = dmn, task_duration = duration, task_url = u,
         waiting = GetVisits\<rparr>)"

text \<open>
  The storage completes the pending operation of a task, at time \<open>now\<close>, and the task runs
  on to its next \<open>await\<close>. JavaScript is single-threaded, so these steps are atomic, but
  the steps of different tasks in flight may come in any order.
\<close>

definition resume :: "int \<Rightarrow> task \<Rightarrow> storage \<Rightarrow> task \<times> storage" where
  "resume now t db =
     (case waiting t of
        GetVisits \<Rightarrow>
          (case add_visit (visits db (day t)) (task_domain t) (task_duration t) (task_url t) of
             None \<Rightarrow> (t\<lparr>waiting := Failed\<rparr>, db)
           | Some v \<Rightarrow> (t\<lparr>waiting := SetVisits v\<rparr>, db))
      | SetVisits v \<Rightarrow>
          (t\<lparr>waiting := GetStatistics\<rparr>, db\<lparr>visits := (visits db)(day t \<mapsto> v)\<rparr>)
      | GetStatistics \<Rightarrow>
          (t\<lparr>waiting := SetStatistics (add_statistics (stats db) now (task_domain t)
                                          (task_duration t))\<rparr>, db)
      | SetStatistics x \<Rightarrow> (t\<lparr>waiting := Finished\<rparr>, db\<lparr>stats := Some x\<rparr>)
      | Finished \<Rightarrow> (t, db)
      | Failed \<Rightarrow> (t, db))"

definition reject :: "task \<Rightarrow> task" where
  "reject t = (case waiting t of Finished \<Rightarrow> t | Failed \<Rightarrow> t | _ \<Rightarrow> t\<lparr>waiting := Failed\<rparr>)"

datatype completion = Resolve nat | Reject nat

fun complete :: "int \<Rightarrow> completion \<Rightarrow> task list \<times> storage \<Rightarrow> task list \<times> storage" where
  "complete now (Resolve i) (ts, db) =
     (if i < length ts
      then (case resume now (ts ! i) db of (t', db') \<Rightarrow> (ts[i := t'], db'))
      else (ts, db))"
| "complete now (Reject i) (ts, db) =
     (if i < length ts then (ts[i := reject (ts ! i)], db) else (ts, db))"

fun schedule :: "int \<Rightarrow> completion list \<Rightarrow> task list \<times> storage \<Rightarrow> task list \<times> storage" where
  "schedule now [] w = w"
| "schedule now (c # cs) w = schedule now cs (complete now c w)"

text \<open>A task run alone, with no other task's operation between its own.\<close>

definition commit_alone :: "int \<Rightarrow> string \<Rightarrow> commit \<Rightarrow> storage \<Rightarrow> storage" where
  "commit_alone now today c db =
     snd (schedule now [Resolve 0, Resolve 0, Resolve 0, Resolve 0] ([saveVisitData today c], db))"















section \<open>Example inputs\<close>

text \<open>
  What the platform's URL parser answers on the addresses used in the examples below;
  it throws on every other string.
\<close>

definition example_hostnames :: url_parser where
  "example_hostnames =
     [''https://example.com/a'' \<mapsto> ''example.com'',
      ''https://news.example.org/'' \<mapsto> ''news.example.org'',
      ''https://blog.www.example.com/'' \<mapsto> ''blog.www.example.com'',
      ''https://www.mywww.example.com/'' \<mapsto> ''www.mywww.example.com'',
      ''https://mywww.example.com/'' \<mapsto> ''mywww.example.com'']"

definition example_session :: trackingData where
  "example_session =
     \<lparr>tabId = 7, url = ''https://example.com/a'', domain = ''example.com'',
      startTime = 1000, lastUpdate = 1000\<rparr>"

definition tracking_example :: tracker where
  "tracking_example = new_tracker\<lparr>activeTabs := [(7, example_session)]\<rparr>"

definition heartbeat_example :: tracker where
  "heartbeat_example =
     new_tracker\<lparr>sessionData :=
       [(3, \<lparr>lastTimestamp = 10000, page_url = ''https://example.com/a''\<rparr>)]\<rparr>"

text \<open>A running work session with a work duration of 50 minutes, three sessions done.\<close>

definition example_timer :: pomodoro where
  "example_timer =
     \<lparr>mode = Some Work, isRunning = Some True, remainingMs = Some 1000,
      workMs = Some 3000000, breakMs = Some 300000, longBreakMs = Some 900000,
      sessionsBeforeLong = Some 4, sessionsCompleted = Some 3, lastUpdated = Some 5000\<rparr>"

definition example_break :: pomodoro where
  "example_break = example_timer\<lparr>mode := Some Break, workMs := Some 0\<rparr>"

definition example_patch :: pomodoro where
  "example_patch = empty_object\<lparr>workMs := Some 1800000, sessionsBeforeLong := Some 2\<rparr>"

definition countdown_patch :: pomodoro where
  "countdown_patch = empty_object\<lparr>isRunning := Some False, remainingMs := Some 5\<rparr>"

definition empty_storage :: storage where
  "empty_storage = \<lparr>visits = Map.empty, stats = None\<rparr>"


section \<open>Stopping a session\<close>

lemma activeTabs_updateBadge: "activeTabs (updateBadge d s) = activeTabs s"
  by (simp add: updateBadge_def)

lemma commits_updateBadge: "commits (updateBadge d s) = commits s"
  by (simp add: updateBadge_def)

lemma sessionData_updateBadge: "sessionData (updateBadge d s) = sessionData s"
  by (simp add: updateBadge_def)

text \<open>
  C6. Stopping a live session at time \<open>now\<close> with \<open>d = now - startTime\<close> puts no commit in
  flight when \<open>d \<le> 1000\<close> and exactly one commit, of exactly \<open>d\<close>, for the session's
  domain and url when \<open>d > 1000\<close>; the session is removed. Stopping a tab without a live
  session changes nothing.
\<close>

theorem stopTrackingTab_commit:
  "(map_of (activeTabs s) tid = Some td \<longrightarrow>
      commits (stopTrackingTab now tid s) =
        commits s @ (if now - startTime td \<le> 1000 then []
                     else [(domain td, now - startTime td, url td)]) \<and>
      map_of (activeTabs (stopTrackingTab now tid s)) tid = None) \<and>
   (map_of (activeTabs s) tid = None \<longrightarrow> stopTrackingTab now tid s = s)"
  by (simp add: stopTrackingTab_def Let_def saveVisitData_call_def commits_updateBadge
      activeTabs_updateBadge delete_conv')

theorem stopTrackingTab_commit_witness:
  "map_of (activeTabs tracking_example) 7 = Some example_session \<and>
   commits (stopTrackingTab 3500 7 tracking_example) =
     [(''example.com'', 2500, ''https://example.com/a'')] \<and>
   commits (stopTrackingTab 2000 7 tracking_example) = [] \<and>
   map_of (activeTabs (stopTrackingTab 3500 7 tracking_example)) 7 = None \<and>
   map_of (activeTabs tracking_example) 8 = None \<and>
   stopTrackingTab 3500 8 tracking_example = tracking_example"
  using stopTrackingTab_commit [of tracking_example 7 example_session 3500]
    stopTrackingTab_commit [of tracking_example 7 example_session 2000]
    stopTrackingTab_commit [of tracking_example 8 example_session 3500]
  by (simp add: tracking_example_def example_session_def new_tracker_def)

section \<open>The single-focus policy\<close>

lemma delete_absent: "map_of al k = None \<Longrightarrow> AList.delete k al = al"
  by (induction al) (auto simp: AList.delete_eq split: if_splits)

lemma stopTrackingTab_activeTabs:
  "activeTabs (stopTrackingTab now tid s) = AList.delete tid (activeTabs s)"
  by (auto simp: stopTrackingTab_def Let_def updateBadge_def saveVisitData_call_def delete_absent
      split: option.splits)

lemma stop_each_key:
  "fst ` set (activeTabs s) \<subseteq> set ks \<Longrightarrow>
   activeTabs (foldl (\<lambda>st tid. stopTrackingTab now tid st) s ks) = []"
proof (induction ks arbitrary: s)
  case Nil
  then show ?case by simp
next
  case (Cons k ks)
  have "fst ` set (activeTabs (stopTrackingTab now k s)) \<subseteq> set ks"
    using Cons.prems by (auto simp: stopTrackingTab_activeTabs AList.delete_eq)
  then show ?case using Cons.IH by simp
qed

lemma stopTrackingAllTabs_activeTabs: "activeTabs (stopTrackingAllTabs now s) = []"
  unfolding stopTrackingAllTabs_def by (rule stop_each_key) simp

lemma length_update_le: "length (AList.update k v al) \<le> Suc (length al)"
  by (induction al) auto

lemma startTrackingTab_length:
  "length (activeTabs (startTrackingTab P now tid uo s)) \<le> Suc (length (activeTabs s))"
  by (auto simp: startTrackingTab_def Let_def updateBadge_def length_update_le split: option.splits)

text \<open>
  The handlers for tab activation and for a window gaining focus stop every session
  before they start one, so they leave at most one.
\<close>

lemma handleTabActivated_single:
  "length (activeTabs (handleTabActivated_callback P now' tid uo (handleTabActivated now s))) \<le> 1"
  using startTrackingTab_length [of P now' tid uo "stopTrackingAllTabs now s"]
  by (auto simp: handleTabActivated_callback_def handleTabActivated_def
      stopTrackingAllTabs_activeTabs split: option.splits)

lemma handleWindowFocusChanged_callback_single:
  "length (activeTabs (handleWindowFocusChanged_callback P now (Some (tid, uo)) s)) \<le> 1"
  using startTrackingTab_length [of P now tid uo "stopTrackingAllTabs now s"]
  by (simp add: handleWindowFocusChanged_callback_def stopTrackingAllTabs_activeTabs)

text \<open>
  C1. At most one session is live after every handler step. The handler for a completed
  navigation stops the session of the updated tab only: with tab 7 active and timed, a
  page that finishes loading in tab 8 starts a second session next to the first.
\<close>

theorem handleTabUpdated_second_session:
  "map fst (activeTabs (run example_hostnames
      [(1000, TabActivated 7),
       (1001, TabLookedUp 7 (Some ''https://example.com/a'')),
       (2000, TabUpdated 8 True (Some ''https://news.example.org/''))]
      new_tracker)) = [7, 8]"
  by (simp add: example_hostnames_def new_tracker_def handleTabActivated_def
      handleTabActivated_callback_def handleTabUpdated_def stopTrackingAllTabs_def
      stopTrackingTab_def startTrackingTab_def extractDomain_def isDomainExcluded_def
      excludedDomains_def startsWith_def updateBadge_def Let_def)

section \<open>The domain classifier\<close>

lemma extractDomain_hostname:
  "\<not> startsWith ''chrome://'' u \<Longrightarrow> \<not> startsWith ''chrome-extension://'' u \<Longrightarrow>
   \<not> startsWith ''about:'' u \<Longrightarrow> \<not> startsWith ''file://'' u \<Longrightarrow> P u = Some h \<Longrightarrow>
   extractDomain P u = replace ''www.'' '''' h"
  by (simp add: extractDomain_def)

lemma replace_leading: "pat \<noteq> [] \<Longrightarrow> replace pat rep (pat @ h) = rep @ h"
  by (cases pat) (simp_all add: startsWith_def)

lemma replace_absent: "\<not> str_includes pat h \<Longrightarrow> replace pat rep h = h"
  by (induction h) auto

text \<open>
  C4. An ordinary address classifies to its hostname with only a leading \<open>www.\<close> removed.
  The code removes the first \<open>www.\<close> wherever it stands: a hostname that does not begin
  with \<open>www.\<close> but contains it is changed, and then a \<open>www.\<close>-prefixed hostname and its
  bare form classify differently.
\<close>

theorem extractDomain_inner_www:
  "extractDomain example_hostnames ''https://blog.www.example.com/'' = ''blog.example.com'' \<and>
   extractDomain example_hostnames ''https://www.mywww.example.com/'' = ''mywww.example.com'' \<and>
   extractDomain example_hostnames ''https://mywww.example.com/'' = ''myexample.com''"
  by (simp add: example_hostnames_def extractDomain_def startsWith_def)

section \<open>The heartbeat channel\<close>

lemma list_all_update:
  "list_all Q al \<Longrightarrow> Q (k, v) \<Longrightarrow> list_all Q (AList.update k v al)"
  by (induction al) auto

lemma sessionData_stopTrackingTab: "sessionData (stopTrackingTab now tid s) = sessionData s"
  by (simp add: stopTrackingTab_def Let_def saveVisitData_call_def sessionData_updateBadge
      split: option.splits)

lemma sessionData_stop_each:
  "sessionData (foldl (\<lambda>st tid. stopTrackingTab now tid st) s ks) = sessionData s"
  by (induction ks arbitrary: s) (simp_all add: sessionData_stopTrackingTab)

lemma sessionData_stopTrackingAllTabs: "sessionData (stopTrackingAllTabs now s) = sessionData s"
  by (simp add: stopTrackingAllTabs_def sessionData_stop_each)

lemma sessionData_startTrackingTab:
  "sessionData (startTrackingTab P now tid uo s) = sessionData s"
  by (simp add: startTrackingTab_def Let_def sessionData_updateBadge split: option.splits)

lemma sessions_ok_pageEvent:
  "sessions_ok P s \<Longrightarrow> sessions_ok P (snd (pageEvent P tab u ts s))"
  by (auto simp: sessions_ok_def pageEvent_def Let_def saveVisitData_call_def
      intro!: list_all_update split: option.splits)

lemma sessions_ok_dispatch: "sessions_ok P s \<Longrightarrow> sessions_ok P (dispatch P now e s)"
proof (cases e)
  case (PageEvent tab u ts)
  assume "sessions_ok P s"
  then show ?thesis using PageEvent by (simp add: sessions_ok_pageEvent)
qed (simp_all add: sessions_ok_def handleTabActivated_def handleTabActivated_callback_def
      handleTabUpdated_def handleTabRemoved_def handleWindowFocusChanged_def
      handleWindowFocusChanged_callback_def toggleTracking_def setTrackingEnabled_def Let_def
      sessionData_stopTrackingAllTabs sessionData_startTrackingTab sessionData_stopTrackingTab
      split: option.splits)

lemma sessions_ok_run: "sessions_ok P s \<Longrightarrow> sessions_ok P (run P es s)"
  by (induction es arbitrary: s) (auto simp: sessions_ok_dispatch)

text \<open>Every state that a run of the tracker reaches has only cursors that passed the gate.\<close>

lemma sessions_ok_reachable: "sessions_ok P (run P es new_tracker)"
  by (rule sessions_ok_run) (simp add: sessions_ok_def new_tracker_def)

lemma sessions_ok_lookup:
  "sessions_ok P s \<Longrightarrow> map_of (sessionData s) tid = Some h \<Longrightarrow>
   tid \<noteq> 0 \<and> \<not> isDomainExcluded (extractDomain P (page_url h))"
  by (auto simp: sessions_ok_def list_all_iff dest!: map_of_SomeD)

theorem pageEvent_excluded_no_baseline:
  "pageEvent example_hostnames (Some 3) ''file:///home/user/notes.html'' 1000 new_tracker =
     (False, new_tracker) \<and>
   map_of (sessionData (snd (pageEvent example_hostnames (Some 3) ''file:///home/user/notes.html''
     1000 new_tracker))) 3 = None"
  by (simp add: pageEvent_def extractDomain_def isDomainExcluded_def excludedDomains_def
      startsWith_def new_tracker_def)

text \<open>
  C5, as amended. In a state that the tracker can reach, a ping for a tab whose stored
  cursor has the same url yields \<open>delta = clamp(timestamp - lastTimestamp, 0, 60000)\<close>,
  one commit of exactly \<open>delta\<close> if and only if \<open>delta \<ge> 5000\<close>, and the cursor
  \<open>{lastTimestamp: timestamp, url}\<close>. A ping that passes the gate of the handler (a nonzero
  tab id, a domain that is not excluded) and finds no cursor, or one with another url,
  stores the new baseline and makes no commit. A ping that does not pass the gate stores
  nothing and makes no commit.
\<close>

theorem pageEvent_heartbeat:
  "(sessions_ok P s \<and> map_of (sessionData s) tid = Some prev \<and> page_url prev = u \<longrightarrow>
      pageEvent P (Some tid) u ts s =
        (True, s\<lparr>commits := commits s @
                    (if max 0 (min (ts - lastTimestamp prev) 60000) \<ge> 5000
                     then [(extractDomain P u, max 0 (min (ts - lastTimestamp prev) 60000), u)]
                     else []),
                  sessionData := AList.update tid \<lparr>lastTimestamp = ts, page_url = u\<rparr>
                                   (sessionData s)\<rparr>)) \<and>
   (tid \<noteq> 0 \<and> \<not> isDomainExcluded (extractDomain P u) \<and>
    (map_of (sessionData s) tid = None \<or>
     (map_of (sessionData s) tid = Some prev \<and> page_url prev \<noteq> u)) \<longrightarrow>
      pageEvent P (Some tid) u ts s =
        (True, s\<lparr>sessionData := AList.update tid \<lparr>lastTimestamp = ts, page_url = u\<rparr>
                                   (sessionData s)\<rparr>)) \<and>
   (tid = 0 \<or> isDomainExcluded (extractDomain P u) \<longrightarrow>
      pageEvent P (Some tid) u ts s = (False, s))"
proof (intro conjI impI)
  assume a: "sessions_ok P s \<and> map_of (sessionData s) tid = Some prev \<and> page_url prev = u"
  then have "tid \<noteq> 0" "\<not> isDomainExcluded (extractDomain P u)"
    using sessions_ok_lookup[of P s tid prev] by auto
  with a show "pageEvent P (Some tid) u ts s =
        (True, s\<lparr>commits := commits s @
                    (if max 0 (min (ts - lastTimestamp prev) 60000) \<ge> 5000
                     then [(extractDomain P u, max 0 (min (ts - lastTimestamp prev) 60000), u)]
                     else []),
                  sessionData := AList.update tid \<lparr>lastTimestamp = ts, page_url = u\<rparr>
                                   (sessionData s)\<rparr>)"
    by (simp add: pageEvent_def Let_def saveVisitData_call_def)
next
  assume "tid \<noteq> 0 \<and> \<not> isDomainExcluded (extractDomain P u) \<and>
    (map_of (sessionData s) tid = None \<or>
     (map_of (sessionData s) tid = Some prev \<and> page_url prev \<noteq> u))"
  then show "pageEvent P (Some tid) u ts s =
        (True, s\<lparr>sessionData := AList.update tid \<lparr>lastTimestamp = ts, page_url = u\<rparr>
                                   (sessionData s)\<rparr>)"
    by (auto simp: pageEvent_def Let_def)
next
  assume "tid = 0 \<or> isDomainExcluded (extractDomain P u)"
  then show "pageEvent P (Some tid) u ts s = (False, s)"
    by (auto simp: pageEvent_def Let_def)
qed

theorem pageEvent_heartbeat_witness:
  "sessions_ok example_hostnames heartbeat_example \<and>
   map_of (sessionData heartbeat_example) 3 =
     Some \<lparr>lastTimestamp = 10000, page_url = ''https://example.com/a''\<rparr> \<and>
   commits (snd (pageEvent example_hostnames (Some 3) ''https://example.com/a'' 20000
     heartbeat_example)) = [(''example.com'', 10000, ''https://example.com/a'')] \<and>
   commits (snd (pageEvent example_hostnames (Some 3) ''https://example.com/a'' 14999
     heartbeat_example)) = [] \<and>
   commits (snd (pageEvent example_hostnames (Some 3) ''https://example.com/a'' 200000
     heartbeat_example)) = [(''example.com'', 60000, ''https://example.com/a'')] \<and>
   pageEvent example_hostnames (Some 3) ''https://news.example.org/'' 20000 heartbeat_example =
     (True, heartbeat_example\<lparr>sessionData :=
        [(3, \<lparr>lastTimestamp = 20000, page_url = ''https://news.example.org/''\<rparr>)]\<rparr>) \<and>
   pageEvent example_hostnames (Some 3) ''about:blank'' 20000 heartbeat_example =
     (False, heartbeat_example)"
  using
    pageEvent_heartbeat [of example_hostnames heartbeat_example 3
      "\<lparr>lastTimestamp = 10000, page_url = ''https://example.com/a''\<rparr>"
      "''about:blank''" 20000]
    pageEvent_heartbeat [of example_hostnames heartbeat_example 3
      "\<lparr>lastTimestamp = 10000, page_url = ''https://example.com/a''\<rparr>"
      "''https://example.com/a''" 20000]
    pageEvent_heartbeat [of example_hostnames heartbeat_example 3
      "\<lparr>lastTimestamp = 10000, page_url = ''https://example.com/a''\<rparr>"
      "''https://example.com/a''" 14999]
    pageEvent_heartbeat [of example_hostnames heartbeat_example 3
      "\<lparr>lastTimestamp = 10000, page_url = ''https://example.com/a''\<rparr>"
      "''https://example.com/a''" 200000]
    pageEvent_heartbeat [of example_hostnames heartbeat_example 3
      "\<lparr>lastTimestamp = 10000, page_url = ''https://example.com/a''\<rparr>"
      "''https://news.example.org/''" 20000]
  by (simp add: sessions_ok_def heartbeat_example_def new_tracker_def example_hostnames_def
      extractDomain_def isDomainExcluded_def excludedDomains_def startsWith_def)

text \<open>
  C10. A \<open>pageEvent\<close> message whose sender has no tab id (for the handler, also the id 0),
  or whose url classifies to an excluded domain, is answered \<open>ok: false\<close> and leaves the
  tracker as it is: no cursor changes and no commit is put in flight. Every other message
  is answered \<open>ok: true\<close>, and the cursor of its tab becomes \<open>{lastTimestamp, url}\<close> of
  the message.
\<close>

theorem pageEvent_response:
  "(sender_tab = None \<or> sender_tab = Some 0 \<or> isDomainExcluded (extractDomain P u) \<longrightarrow>
      pageEvent P sender_tab u ts s = (False, s)) \<and>
   (sender_tab = Some tid \<and> tid \<noteq> 0 \<and> \<not> isDomainExcluded (extractDomain P u) \<longrightarrow>
      fst (pageEvent P sender_tab u ts s) \<and>
      map_of (sessionData (snd (pageEvent P sender_tab u ts s))) tid =
        Some \<lparr>lastTimestamp = ts, page_url = u\<rparr>)"
  by (auto simp: pageEvent_def Let_def saveVisitData_call_def update_conv' split: option.splits)

theorem pageEvent_response_witness:
  "pageEvent example_hostnames None ''https://example.com/a'' 20000 heartbeat_example =
     (False, heartbeat_example) \<and>
   pageEvent example_hostnames (Some 3) ''file:///home/user/notes.html'' 20000 heartbeat_example =
     (False, heartbeat_example) \<and>
   \<not> isDomainExcluded (extractDomain example_hostnames ''https://news.example.org/'') \<and>
   fst (pageEvent example_hostnames (Some 4) ''https://news.example.org/'' 20000
     heartbeat_example) \<and>
   map_of (sessionData (snd (pageEvent example_hostnames (Some 4) ''https://news.example.org/''
     20000 heartbeat_example))) 4 =
     Some \<lparr>lastTimestamp = 20000, page_url = ''https://news.example.org/''\<rparr>"
  using
    pageEvent_response [of None example_hostnames "''https://example.com/a''" 20000
      heartbeat_example 0]
    pageEvent_response [of "Some 3" example_hostnames "''file:///home/user/notes.html''" 20000
      heartbeat_example 3]
    pageEvent_response [of "Some 4" example_hostnames "''https://news.example.org/''" 20000
      heartbeat_example 4]
  by (simp add: example_hostnames_def extractDomain_def isDomainExcluded_def excludedDomains_def
      startsWith_def)

section \<open>The focus timer\<close>

lemma js_rem_zero_iff: "b \<noteq> 0 \<Longrightarrow> js_rem a b = 0 \<longleftrightarrow> b dvd a"
  by (auto simp: js_rem_def sgn_if dvd_eq_mod_eq_0[symmetric])

lemma or_else_Some: "or_else (Some v) d = (if v = 0 then d else v)"
  by (simp add: or_else_def)

lemma or_else_nonzero: "d \<noteq> 0 \<Longrightarrow> or_else x d \<noteq> 0"
  by (simp add: or_else_def split: option.splits)

text \<open>
  Reset keeps the configured durations and overwrites the other five fields; the
  remaining time it writes is the constant 25 minutes.
\<close>

lemma pomodoro_reset_result:
  "stored env = Some s \<Longrightarrow>
   pomodoro_reset now env =
     \<lparr>stored = Some (s\<lparr>mode := Some Work, isRunning := Some False,
                        remainingMs := Some 1500000, sessionsCompleted := Some 0,
                        lastUpdated := Some now\<rparr>),
      alarm = None\<rparr>"
  by (simp add: pomodoro_reset_def reset_defaults_def spread_def override_def or_empty_def Let_def)

text \<open>
  C2. Reset returns to \<open>{mode: work, isRunning: false, remainingMs: workMs,
  sessionsCompleted: 0}\<close> and keeps the configured durations. With a configured work
  duration of 50 minutes the code keeps \<open>workMs = 3000000\<close> but stores
  \<open>remainingMs = 1500000\<close>.
\<close>

theorem reset_ignores_workMs:
  "pomodoro_reset 7000 \<lparr>stored = Some example_timer, alarm = Some 6000\<rparr> =
     \<lparr>stored = Some (example_timer\<lparr>mode := Some Work, isRunning := Some False,
         remainingMs := Some 1500000, sessionsCompleted := Some 0, lastUpdated := Some 7000\<rparr>),
      alarm = None\<rparr> \<and>
   workMs example_timer = Some 3000000"
  by (simp add: pomodoro_reset_def reset_defaults_def spread_def override_def or_empty_def
      example_timer_def)

theorem onAlarm_zero_workMs:
  "map_option remainingMs (stored (onAlarm ''pomodoro-end'' 6000 6000
      \<lparr>stored = Some example_break, alarm = None\<rparr>)) = Some (Some 1500000) \<and>
   workMs example_break = Some 0"
  by (simp add: onAlarm_def or_empty_def or_else_def example_break_def example_timer_def Let_def)

text \<open>
  C7, as amended. When the alarm fires on a stored state in mode work, \<open>sessionsCompleted\<close>
  is incremented and the new state has mode break, with \<open>longBreakMs\<close> remaining when the
  incremented count is divisible by \<open>sessionsBeforeLong\<close> and \<open>breakMs\<close> otherwise; in
  mode break the new state has mode work with \<open>workMs\<close> remaining. A configuration field
  that is 0 counts as 4 sessions, 900000, 300000 and 1500000 ms respectively. In both
  cases \<open>isRunning\<close> becomes true, \<open>lastUpdated\<close> is the time \<open>now\<close> read before the state
  is written, and the alarm is armed at the time \<open>now'\<close> read after it plus the new
  remaining time.
\<close>

theorem onAlarm_transition:
  "(stored env = Some s \<and> mode s = Some Work \<and> sessionsCompleted s = Some n \<and>
    sessionsBeforeLong s = Some k \<and> longBreakMs s = Some lb \<and> breakMs s = Some b \<longrightarrow>
      onAlarm ''pomodoro-end'' now now' env =
        (let r = (if (if k = 0 then 4 else k) dvd n + 1
                  then (if lb = 0 then 900000 else lb)
                  else (if b = 0 then 300000 else b))
         in \<lparr>stored = Some (s\<lparr>sessionsCompleted := Some (n + 1), mode := Some Break,
                                remainingMs := Some r, isRunning := Some True,
                                lastUpdated := Some now\<rparr>),
             alarm = Some (now' + r)\<rparr>)) \<and>
   (stored env = Some s \<and> mode s = Some Break \<and> workMs s = Some w \<longrightarrow>
      onAlarm ''pomodoro-end'' now now' env =
        (let r = (if w = 0 then 1500000 else w)
         in \<lparr>stored = Some (s\<lparr>mode := Some Work, remainingMs := Some r,
                                isRunning := Some True, lastUpdated := Some now\<rparr>),
             alarm = Some (now' + r)\<rparr>))"
proof (intro conjI impI)
  assume a: "stored env = Some s \<and> mode s = Some Work \<and> sessionsCompleted s = Some n \<and>
    sessionsBeforeLong s = Some k \<and> longBreakMs s = Some lb \<and> breakMs s = Some b"
  have k: "or_else (Some k) 4 \<noteq> 0" by (rule or_else_nonzero) simp
  show "onAlarm ''pomodoro-end'' now now' env =
        (let r = (if (if k = 0 then 4 else k) dvd n + 1
                  then (if lb = 0 then 900000 else lb)
                  else (if b = 0 then 300000 else b))
         in \<lparr>stored = Some (s\<lparr>sessionsCompleted := Some (n + 1), mode := Some Break,
                                remainingMs := Some r, isRunning := Some True,
                                lastUpdated := Some now\<rparr>),
             alarm = Some (now' + r)\<rparr>)"
    using a js_rem_zero_iff[OF k, of "or_else (Some n) 0 + 1"]
    by (simp add: onAlarm_def or_empty_def Let_def or_else_Some)
next
  assume a: "stored env = Some s \<and> mode s = Some Break \<and> workMs s = Some w"
  then show "onAlarm ''pomodoro-end'' now now' env =
        (let r = (if w = 0 then 1500000 else w)
         in \<lparr>stored = Some (s\<lparr>mode := Some Work, remainingMs := Some r,
                                isRunning := Some True, lastUpdated := Some now\<rparr>),
             alarm = Some (now' + r)\<rparr>)"
    by (simp add: onAlarm_def or_empty_def Let_def or_else_Some)
qed

theorem onAlarm_transition_witness:
  "onAlarm ''pomodoro-end'' 6000 6002 \<lparr>stored = Some example_timer, alarm = Some 6000\<rparr> =
     \<lparr>stored = Some (example_timer\<lparr>sessionsCompleted := Some 4, mode := Some Break,
         remainingMs := Some 900000, isRunning := Some True, lastUpdated := Some 6000\<rparr>),
      alarm = Some 906002\<rparr> \<and>
   onAlarm ''pomodoro-end'' 6000 6002
     \<lparr>stored = Some (example_timer\<lparr>mode := Some Break\<rparr>), alarm = Some 6000\<rparr> =
     \<lparr>stored = Some (example_timer\<lparr>mode := Some Work, remainingMs := Some 3000000,
         isRunning := Some True, lastUpdated := Some 6000\<rparr>),
      alarm = Some 3006002\<rparr>"
  using
    onAlarm_transition [where env = "\<lparr>stored = Some example_timer, alarm = Some 6000\<rparr>"
      and s = example_timer and n = 3 and k = 4 and lb = 900000 and b = 300000
      and now = 6000 and now' = 6002 and w = 3000000]
    onAlarm_transition [where
      env = "\<lparr>stored = Some (example_timer\<lparr>mode := Some Break\<rparr>), alarm = Some 6000\<rparr>"
      and s = "example_timer\<lparr>mode := Some Break\<rparr>" and n = 3 and k = 4 and lb = 900000
      and b = 300000 and now = 6000 and now' = 6002 and w = 3000000]
  by (simp add: example_timer_def)

theorem remaining_clock_set_back:
  "getPomodoroRemaining 4000 example_timer = Some 1000 \<and>
   getPomodoroRemaining 4000 example_timer \<noteq> Some (max 0 (1000 - (4000 - 5000)))"
  by (simp add: getPomodoroRemaining_def or_else_def example_timer_def)

text \<open>
  C8, as amended. For a state with a nonzero \<open>lastUpdated\<close>, the derived remaining time is
  \<open>remainingMs\<close> when the timer is not running and
  \<open>max(0, remainingMs - max(0, now - lastUpdated))\<close> when it is: time that has run
  backwards counts as no time elapsed. From \<open>lastUpdated \<le> now\<close> on this is
  \<open>max(0, remainingMs - (now - lastUpdated))\<close>. Pause stores the derived value as
  \<open>remainingMs\<close>, sets \<open>isRunning\<close> to false and \<open>lastUpdated\<close> to \<open>now\<close>, and clears the
  alarm.
\<close>

theorem pause_stores_derived_remaining:
  "remainingMs s = Some r \<and> lastUpdated s = Some l \<and> l \<noteq> 0 \<and> isRunning s = Some running \<longrightarrow>
     getPomodoroRemaining now s =
       Some (if running then max 0 (r - max 0 (now - l)) else r) \<and>
     (l \<le> now \<longrightarrow>
        getPomodoroRemaining now s = Some (if running then max 0 (r - (now - l)) else r)) \<and>
     (stored env = Some s \<longrightarrow>
        pomodoro_pause now env =
          \<lparr>stored = Some (s\<lparr>isRunning := Some False,
                              remainingMs :=
                                Some (if running then max 0 (r - max 0 (now - l)) else r),
                              lastUpdated := Some now\<rparr>),
           alarm = None\<rparr>)"
  by (auto simp: getPomodoroRemaining_def pomodoro_pause_def or_empty_def Let_def or_else_Some)

theorem pause_stores_derived_remaining_witness:
  "getPomodoroRemaining 5400 example_timer = Some 600 \<and>
   getPomodoroRemaining 9000 example_timer = Some 0 \<and>
   pomodoro_pause 5400 \<lparr>stored = Some example_timer, alarm = Some 6000\<rparr> =
     \<lparr>stored = Some (example_timer\<lparr>isRunning := Some False, remainingMs := Some 600,
         lastUpdated := Some 5400\<rparr>),
      alarm = None\<rparr>"
  using
    pause_stores_derived_remaining [of example_timer 1000 5000 True 5400
      "\<lparr>stored = Some example_timer, alarm = Some 6000\<rparr>"]
    pause_stores_derived_remaining [of example_timer 1000 5000 True 9000
      "\<lparr>stored = Some example_timer, alarm = Some 6000\<rparr>"]
  by (simp add: example_timer_def)

theorem updateSettings_overwrites_countdown:
  "pomodoro_updateSettings countdown_patch \<lparr>stored = Some example_timer, alarm = Some 6000\<rparr> =
     \<lparr>stored = Some (example_timer\<lparr>isRunning := Some False, remainingMs := Some 5\<rparr>),
      alarm = Some 6000\<rparr> \<and>
   isRunning example_timer = Some True \<and> remainingMs example_timer = Some 1000"
  by (simp add: pomodoro_updateSettings_def countdown_patch_def empty_object_def spread_def
      override_def or_empty_def example_timer_def)

text \<open>
  C9, as amended. On a stored state, \<open>updateSettings\<close> replaces every field that the patch
  carries by the value of the patch and leaves every field that the patch does not carry
  as it is; the pending alarm is not touched. So a patch that carries configuration
  fields only changes at most \<open>workMs\<close>, \<open>breakMs\<close>, \<open>longBreakMs\<close> and
  \<open>sessionsBeforeLong\<close>, and a patch that carries \<open>mode\<close>, \<open>isRunning\<close>, \<open>remainingMs\<close>,
  \<open>sessionsCompleted\<close> or \<open>lastUpdated\<close> overwrites that field.
\<close>

theorem updateSettings_merges_patch:
  "stored env = Some s \<longrightarrow>
     pomodoro_updateSettings p env =
       env\<lparr>stored := Some
         \<lparr>mode = (if mode p = None then mode s else mode p),
          isRunning = (if isRunning p = None then isRunning s else isRunning p),
          remainingMs = (if remainingMs p = None then remainingMs s else remainingMs p),
          workMs = (if workMs p = None then workMs s else workMs p),
          breakMs = (if breakMs p = None then breakMs s else breakMs p),
          longBreakMs = (if longBreakMs p = None then longBreakMs s else longBreakMs p),
          sessionsBeforeLong =
            (if sessionsBeforeLong p = None then sessionsBeforeLong s else sessionsBeforeLong p),
          sessionsCompleted =
            (if sessionsCompleted p = None then sessionsCompleted s else sessionsCompleted p),
          lastUpdated = (if lastUpdated p = None then lastUpdated s else lastUpdated p)\<rparr>\<rparr> \<and>
     (settings_patch p \<longrightarrow>
        pomodoro_updateSettings p env =
          env\<lparr>stored := Some
            (s\<lparr>workMs := (if workMs p = None then workMs s else workMs p),
               breakMs := (if breakMs p = None then breakMs s else breakMs p),
               longBreakMs := (if longBreakMs p = None then longBreakMs s else longBreakMs p),
               sessionsBeforeLong :=
                 (if sessionsBeforeLong p = None then sessionsBeforeLong s
                  else sessionsBeforeLong p)\<rparr>)\<rparr>)"
proof (intro impI conjI)
  assume s: "stored env = Some s"
  have ov: "\<And>x y :: 'a option. override x y = (if y = None then x else y)"
    by (simp add: override_def split: option.splits)
  show merged: "pomodoro_updateSettings p env =
       env\<lparr>stored := Some
         \<lparr>mode = (if mode p = None then mode s else mode p),
          isRunning = (if isRunning p = None then isRunning s else isRunning p),
          remainingMs = (if remainingMs p = None then remainingMs s else remainingMs p),
          workMs = (if workMs p = None then workMs s else workMs p),
          breakMs = (if breakMs p = None then breakMs s else breakMs p),
          longBreakMs = (if longBreakMs p = None then longBreakMs s else longBreakMs p),
          sessionsBeforeLong =
            (if sessionsBeforeLong p = None then sessionsBeforeLong s else sessionsBeforeLong p),
          sessionsCompleted =
            (if sessionsCompleted p = None then sessionsCompleted s else sessionsCompleted p),
          lastUpdated = (if lastUpdated p = None then lastUpdated s else lastUpdated p)\<rparr>\<rparr>"
    using s by (simp add: pomodoro_updateSettings_def spread_def or_empty_def Let_def ov)
  assume "settings_patch p"
  then show "pomodoro_updateSettings p env =
          env\<lparr>stored := Some
            (s\<lparr>workMs := (if workMs p = None then workMs s else workMs p),
               breakMs := (if breakMs p = None then breakMs s else breakMs p),
               longBreakMs := (if longBreakMs p = None then longBreakMs s else longBreakMs p),
               sessionsBeforeLong :=
                 (if sessionsBeforeLong p = None then sessionsBeforeLong s
                  else sessionsBeforeLong p)\<rparr>)\<rparr>"
    unfolding merged by (simp add: settings_patch_def)
qed

theorem updateSettings_merges_patch_witness:
  "settings_patch example_patch \<and>
   pomodoro_updateSettings example_patch \<lparr>stored = Some example_timer, alarm = Some 6000\<rparr> =
     \<lparr>stored = Some (example_timer\<lparr>workMs := Some 1800000, sessionsBeforeLong := Some 2\<rparr>),
      alarm = Some 6000\<rparr> \<and>
   pomodoro_updateSettings countdown_patch \<lparr>stored = Some example_timer, alarm = Some 6000\<rparr> =
     \<lparr>stored = Some (example_timer\<lparr>isRunning := Some False, remainingMs := Some 5\<rparr>),
      alarm = Some 6000\<rparr>"
  using
    updateSettings_merges_patch [of "\<lparr>stored = Some example_timer, alarm = Some 6000\<rparr>"
      example_timer example_patch]
    updateSettings_merges_patch [of "\<lparr>stored = Some example_timer, alarm = Some 6000\<rparr>"
      example_timer countdown_patch]
  by (simp add: settings_patch_def example_patch_def countdown_patch_def empty_object_def
      example_timer_def)

section \<open>The visit aggregator\<close>







text \<open>
  A commit for a domain named like an inherited property stores nothing: the code throws
  before its first \<open>set\<close>.
\<close>

lemma commit_alone_inherited:
  "commit_alone now today (''constructor'', d, u) empty_storage = empty_storage"
  by (simp add: commit_alone_def saveVisitData_def resume_def add_visit_def get_property_def
      object_prototype_keys_def empty_storage_def)











subsection \<open>After the reads\<close>




















end
